theory Spec2Isabelle
  imports Complex_Main "HOL-Library.Sublist"
begin

section \<open>JavaScript values used by the globe and its proxy\<close>

text \<open>
  Numeric fields travel as JSON and are read with JavaScript's coercions: a field may be a
  number, \<open>null\<close> (the upstream sends \<open>mag: null\<close>) or \<open>undefined\<close> (an array read
  past its end, a missing field). Numbers are modelled as reals: the rounding of IEEE
  doubles is not modelled. \<open>ToNumber\<close> gives \<open>None\<close> for NaN.
\<close>

datatype jsnum = JUndefined | JNull | JNum real

fun toNumber :: "jsnum \<Rightarrow> real option" where
  "toNumber JUndefined = None"
| "toNumber JNull = Some 0"
| "toNumber (JNum x) = Some x"

text \<open>The relational operators on numbers: every comparison with NaN is false.\<close>

definition js_lt :: "real option \<Rightarrow> real option \<Rightarrow> bool" where
  "js_lt a b = (case a of None \<Rightarrow> False | Some x \<Rightarrow> (case b of None \<Rightarrow> False | Some y \<Rightarrow> x < y))"

definition js_gt :: "real option \<Rightarrow> real option \<Rightarrow> bool" where
  "js_gt a b = js_lt b a"

definition js_le :: "real option \<Rightarrow> real option \<Rightarrow> bool" where
  "js_le a b = (case a of None \<Rightarrow> False | Some x \<Rightarrow> (case b of None \<Rightarrow> False | Some y \<Rightarrow> x \<le> y))"

definition js_ge :: "real option \<Rightarrow> real option \<Rightarrow> bool" where
  "js_ge a b = js_le b a"

text \<open>\<open>a * b\<close> and \<open>Math.max(a, b)\<close>: NaN if an operand is NaN.\<close>

definition js_times :: "real option \<Rightarrow> real option \<Rightarrow> real option" where
  "js_times a b = (case a of None \<Rightarrow> None | Some x \<Rightarrow> (case b of None \<Rightarrow> None | Some y \<Rightarrow> Some (x * y)))"

definition Math_max :: "real option \<Rightarrow> real option \<Rightarrow> real option" where
  "Math_max a b = (case a of None \<Rightarrow> None | Some x \<Rightarrow> (case b of None \<Rightarrow> None | Some y \<Rightarrow> Some (max x y)))"

section \<open>Data model\<close>

text \<open>
  The record the proxy builds for each feature (\<open>processed\<close> in the \<open>/earthquakes\<close>
  handler) and the client filters. The fields \<open>id\<close> and \<open>type\<close> are written
  \<open>id'\<close> and \<open>type'\<close>.
\<close>

record EarthquakeEvent =
  id' :: string
  lat :: jsnum
  lng :: jsnum
  depth :: jsnum
  magnitude :: jsnum
  place :: string
  time :: int
  timeString :: string
  title :: string
  url :: string
  tsunami :: int
  type' :: string
  status :: string
  updated :: int

text \<open>The \<open>filters\<close> state of \<open>EarthquakeGlobe\<close> (CrisisGlobe.jsx, line 19).\<close>

record FilterState =
  minMagnitude :: real
  maxMagnitude :: real
  startDate :: string
  endDate :: string
  region :: string
  searchTerm :: string

section \<open>Derived display attributes (CrisisGlobe.jsx, lines 42-53)\<close>

definition getMagnitudeColor :: "jsnum \<Rightarrow> string" where
  "getMagnitudeColor magnitude' =
     (if js_ge (toNumber magnitude') (Some 7) then ''#ff0000''
      else if js_ge (toNumber magnitude') (Some 6) then ''#ff4500''
      else if js_ge (toNumber magnitude') (Some 5) then ''#ff8c00''
      else if js_ge (toNumber magnitude') (Some 4) then ''#ffd700''
      else ''#90ee90'')"

definition getMagnitudeSize :: "jsnum \<Rightarrow> real option" where
  "getMagnitudeSize magnitude' = Math_max (Some 0.15) (js_times (toNumber magnitude') (Some 0.15))"

text \<open>
  The five buckets in the order of the step function, to state that the colour never
  steps down when the magnitude grows: light green, gold, dark orange, orange red, red.
\<close>

definition colorBucket :: "string \<Rightarrow> nat" where
  "colorBucket c =
     (if c = ''#ff0000'' then 4
      else if c = ''#ff4500'' then 3
      else if c = ''#ff8c00'' then 2
      else if c = ''#ffd700'' then 1
      else 0)"

section \<open>Region test (CrisisGlobe.jsx, lines 69-89)\<close>

definition isInRegion :: "'a EarthquakeEvent_scheme \<Rightarrow> string \<Rightarrow> bool" where
  "isInRegion earthquake region' =
     (if region' = ''all'' then True
      else let lat' = toNumber (lat earthquake); lng' = toNumber (lng earthquake) in
        if region' = ''pacific-ring'' then
          (js_ge lng' (Some 120) \<and> js_le lng' (Some 180)) \<or>
          (js_ge lng' (Some (- 180)) \<and> js_le lng' (Some (- 100))) \<or>
          (js_ge lat' (Some (- 60)) \<and> js_le lat' (Some 70) \<and>
             (js_ge lng' (Some 120) \<or> js_le lng' (Some (- 100))))
        else if region' = ''americas'' then
          js_ge lng' (Some (- 180)) \<and> js_le lng' (Some (- 30))
        else if region' = ''asia-pacific'' then
          js_ge lng' (Some 60) \<and> js_le lng' (Some 180) \<and>
          js_ge lat' (Some (- 50)) \<and> js_le lat' (Some 70)
        else if region' = ''europe-africa'' then
          js_ge lng' (Some (- 30)) \<and> js_le lng' (Some 60)
        else if region' = ''atlantic'' then
          js_ge lng' (Some (- 60)) \<and> js_le lng' (Some 20) \<and>
          js_ge lat' (Some (- 60)) \<and> js_le lat' (Some 70)
        else True)"

section \<open>Dates and strings of the host\<close>

text \<open>
  A \<open>Date\<close> holds a time value: integer milliseconds since the epoch, or NaN (an
  Invalid Date, \<open>None\<close>). \<open>new Date(t)\<close> for a number clips it to the range of time
  values (ECMAScript TimeClip). \<open>new Date(s)\<close> for a string parses it; the accepted
  formats belong to the host, so the parser is a parameter \<open>parse\<close> of the functions
  that need it. Relational operators compare dates through \<open>valueOf\<close>.
\<close>

definition maxTimeValue :: int where
  "maxTimeValue = 8640000000000000"

definition newDate :: "int \<Rightarrow> int option" where
  "newDate t = (if \<bar>t\<bar> \<le> maxTimeValue then Some t else None)"

definition valueOf :: "int option \<Rightarrow> real option" where
  "valueOf d = map_option real_of_int d"

text \<open>
  \<open>String.prototype.toLowerCase\<close> on the ASCII letters (characters are bytes here; case
  mapping beyond ASCII is not modelled) and \<open>String.prototype.includes\<close>, written
  \<open>includes'\<close>.
\<close>

definition toLowerCaseChar :: "char \<Rightarrow> char" where
  "toLowerCaseChar c =
     (case map_of (zip ''ABCDEFGHIJKLMNOPQRSTUVWXYZ'' ''abcdefghijklmnopqrstuvwxyz'') c of
        None \<Rightarrow> c | Some l \<Rightarrow> l)"

definition toLowerCase :: "string \<Rightarrow> string" where
  "toLowerCase s = map toLowerCaseChar s"

fun startsWith :: "string \<Rightarrow> string \<Rightarrow> bool" where
  "startsWith s [] = True"
| "startsWith [] (c # t) = False"
| "startsWith (d # s) (c # t) = (d = c \<and> startsWith s t)"

fun includes' :: "string \<Rightarrow> string \<Rightarrow> bool" where
  "includes' [] t = (t = [])"
| "includes' (d # s) t = (startsWith (d # s) t \<or> includes' s t)"

section \<open>Client filter engine (CrisisGlobe.jsx, lines 92-121)\<close>

text \<open>
  The callback of \<open>earthquakes.filter\<close>, with its early returns in the order of the
  source. An empty string is falsy, so a date bound or a search term is tested only when
  it is not empty.
\<close>

definition passesFilters ::
  "(string \<Rightarrow> int option) \<Rightarrow> FilterState \<Rightarrow> 'a EarthquakeEvent_scheme \<Rightarrow> bool" where
  "passesFilters parse filters eq =
     (if js_lt (toNumber (magnitude eq)) (Some (minMagnitude filters)) \<or>
         js_gt (toNumber (magnitude eq)) (Some (maxMagnitude filters)) then False
      else if startDate filters \<noteq> [] \<and>
         js_lt (valueOf (newDate (time eq))) (valueOf (parse (startDate filters))) then False
      else if endDate filters \<noteq> [] \<and>
         js_gt (valueOf (newDate (time eq))) (valueOf (parse (endDate filters))) then False
      else if \<not> isInRegion eq (region filters) then False
      else if searchTerm filters \<noteq> [] \<and>
         \<not> includes' (toLowerCase (place eq)) (toLowerCase (searchTerm filters)) then False
      else True)"

definition filterEarthquakes ::
  "(string \<Rightarrow> int option) \<Rightarrow> FilterState \<Rightarrow> 'a EarthquakeEvent_scheme list
     \<Rightarrow> 'a EarthquakeEvent_scheme list" where
  "filterEarthquakes parse filters earthquakes = filter (passesFilters parse filters) earthquakes"

text \<open>The initial \<open>filters\<close> state (line 19), before the date range is filled in.\<close>

definition initialFilters :: FilterState where
  "initialFilters =
     \<lparr>minMagnitude = 4.5, maxMagnitude = 10.0, startDate = [], endDate = [],
      region = ''all'', searchTerm = []\<rparr>"

subsection \<open>The five predicates as the specification words them\<close>

text \<open>
  Magnitude within the bounds, the magnitude read as a number; time not before the start
  date when one is set; time not after the end date when one is set; membership of the
  region; the lower-cased search term a contiguous part of the lower-cased place when a
  term is given. A date bound is set when the field is not empty and the host reads a date
  in it (\<open>dateBound\<close>).
\<close>

definition magnitudePredicate :: "FilterState \<Rightarrow> 'a EarthquakeEvent_scheme \<Rightarrow> bool" where
  "magnitudePredicate filters e =
     (case toNumber (magnitude e) of None \<Rightarrow> False
      | Some m \<Rightarrow> minMagnitude filters \<le> m \<and> m \<le> maxMagnitude filters)"

definition dateBound :: "(string \<Rightarrow> int option) \<Rightarrow> string \<Rightarrow> int option" where
  "dateBound parse s = (if s = [] then None else parse s)"

definition startDatePredicate ::
  "(string \<Rightarrow> int option) \<Rightarrow> FilterState \<Rightarrow> 'a EarthquakeEvent_scheme \<Rightarrow> bool" where
  "startDatePredicate parse filters e =
     (case dateBound parse (startDate filters) of None \<Rightarrow> True | Some d \<Rightarrow> time e \<ge> d)"

definition endDatePredicate ::
  "(string \<Rightarrow> int option) \<Rightarrow> FilterState \<Rightarrow> 'a EarthquakeEvent_scheme \<Rightarrow> bool" where
  "endDatePredicate parse filters e =
     (case dateBound parse (endDate filters) of None \<Rightarrow> True | Some d \<Rightarrow> time e \<le> d)"

definition regionPredicate :: "FilterState \<Rightarrow> 'a EarthquakeEvent_scheme \<Rightarrow> bool" where
  "regionPredicate filters e = isInRegion e (region filters)"

definition searchPredicate :: "FilterState \<Rightarrow> 'a EarthquakeEvent_scheme \<Rightarrow> bool" where
  "searchPredicate filters e =
     (searchTerm filters = [] \<or>
      sublist (toLowerCase (searchTerm filters)) (toLowerCase (place e)))"

definition allFivePredicates ::
  "(string \<Rightarrow> int option) \<Rightarrow> FilterState \<Rightarrow> 'a EarthquakeEvent_scheme \<Rightarrow> bool" where
  "allFivePredicates parse filters e =
     (magnitudePredicate filters e \<and> startDatePredicate parse filters e \<and>
      endDatePredicate parse filters e \<and> regionPredicate filters e \<and>
      searchPredicate filters e)"

text \<open>
  What the events of the engine are: a magnitude is a number or \<open>null\<close>, and a time is
  a time value.
\<close>

definition wellFormedEvent :: "'a EarthquakeEvent_scheme \<Rightarrow> bool" where
  "wellFormedEvent e = (magnitude e \<noteq> JUndefined \<and> newDate (time e) \<noteq> None)"

section \<open>Component state and the reveal animation (CrisisGlobe.jsx, lines 132-161)\<close>

text \<open>
  The part of the component's state the filter and the animation touch. \<open>setInterval\<close>
  hands out a fresh handle; \<open>timers\<close> lists the live intervals, each with the length
  that \<open>filteredEarthquakes\<close> had when \<open>startAnimation\<close> built the callback (the
  callback's closure keeps that list). \<open>animationRef\<close> holds the last handle stored.
\<close>

record 'a View =
  earthquakes :: "'a EarthquakeEvent_scheme list"
  filteredEarthquakes :: "'a EarthquakeEvent_scheme list"
  filters :: FilterState
  isAnimating :: bool
  animationIndex :: nat
  timers :: "(nat \<times> nat) list"
  nextHandle :: nat
  animationRef :: "nat option"

definition applyFilters :: "(string \<Rightarrow> int option) \<Rightarrow> 'a View \<Rightarrow> 'a View" where
  "applyFilters parse v =
     v\<lparr>filteredEarthquakes := filterEarthquakes parse (filters v) (earthquakes v)\<rparr>"

definition startAnimation :: "'a View \<Rightarrow> 'a View" where
  "startAnimation v =
     (if length (filteredEarthquakes v) = 0 then v
      else v\<lparr>isAnimating := True, animationIndex := 0,
             timers := timers v @ [(nextHandle v, length (filteredEarthquakes v))],
             animationRef := Some (nextHandle v),
             nextHandle := Suc (nextHandle v)\<rparr>)"

text \<open>The interval's callback \<open>animate\<close>, for the list length its closure holds.\<close>

definition animate :: "nat \<Rightarrow> 'a View \<Rightarrow> 'a View" where
  "animate capturedLength v =
     (let next = animationIndex v + 1 in
      if next \<ge> capturedLength then v\<lparr>isAnimating := False, animationIndex := 0\<rparr>
      else v\<lparr>animationIndex := next\<rparr>)"

definition clearInterval :: "nat option \<Rightarrow> (nat \<times> nat) list \<Rightarrow> (nat \<times> nat) list" where
  "clearInterval h ts = filter (\<lambda>t. Some (fst t) \<noteq> h) ts"

definition stopAnimation :: "'a View \<Rightarrow> 'a View" where
  "stopAnimation v =
     v\<lparr>isAnimating := False, timers := clearInterval (animationRef v) (timers v),
       animationIndex := 0\<rparr>"

definition displayEarthquakes :: "'a View \<Rightarrow> 'a EarthquakeEvent_scheme list" where
  "displayEarthquakes v =
     (if isAnimating v then take (animationIndex v) (filteredEarthquakes v)
      else filteredEarthquakes v)"

text \<open>
  A change of the filters (\<open>setFilters\<close>, called by \<open>handleFilterChange\<close> and by the
  quick-filter buttons, lines 124-129 and 699-745) with the effect that follows it (lines
  231-235: \<open>applyFilters\<close> when \<open>earthquakes\<close> is not empty). The same effect runs
  when the component mounts and when the data arrives, with the filters then in place.
  Neither touches the animation's index, flag or intervals.
\<close>

definition setFilters :: "(string \<Rightarrow> int option) \<Rightarrow> FilterState \<Rightarrow> 'a View \<Rightarrow> 'a View" where
  "setFilters parse fs v =
     (let v' = v\<lparr>filters := fs\<rparr> in
      if length (earthquakes v') > 0 then applyFilters parse v' else v')"

text \<open>
  What can happen to the component while an animation may be live: the two handlers, the
  firing of a live interval (a handle that is not live fires nothing), and a change of the
  filters. The first three are the transitions of the animation itself
  (\<open>animationOnly\<close>).
\<close>

datatype transition = Start | Tick nat | Stop | SetFilters FilterState

fun step :: "(string \<Rightarrow> int option) \<Rightarrow> 'a View \<Rightarrow> transition \<Rightarrow> 'a View" where
  "step parse v Start = startAnimation v"
| "step parse v Stop = stopAnimation v"
| "step parse v (Tick h) = (case map_of (timers v) h of None \<Rightarrow> v | Some n \<Rightarrow> animate n v)"
| "step parse v (SetFilters fs) = setFilters parse fs v"

definition run :: "(string \<Rightarrow> int option) \<Rightarrow> 'a View \<Rightarrow> transition list \<Rightarrow> 'a View" where
  "run parse v ts = foldl (step parse) v ts"

fun animationOnly :: "transition \<Rightarrow> bool" where
  "animationOnly (SetFilters fs) = False"
| "animationOnly t = True"

text \<open>The view once a filtered list is in place and before any animation.\<close>

definition stoppedView ::
  "'a EarthquakeEvent_scheme list \<Rightarrow> 'a EarthquakeEvent_scheme list \<Rightarrow> FilterState \<Rightarrow> 'a View" where
  "stoppedView all shown fs =
     \<lparr>earthquakes = all, filteredEarthquakes = shown, filters = fs, isAnimating = False,
      animationIndex = 0, timers = [], nextHandle = 0, animationRef = None\<rparr>"

section \<open>The proxy: \<open>GET /earthquakes\<close>\<close>

subsection \<open>Host functions the handler calls\<close>

text \<open>
  A thrown value, with the \<open>message\<close> the handler's \<open>catch\<close> reads.
\<close>

datatype exn = Error string | RangeError string

fun message :: "exn \<Rightarrow> string" where
  "message (Error m) = m"
| "message (RangeError m) = m"

text \<open>Decimal digits: \<open>pad n k\<close> writes the last \<open>n\<close> digits of \<open>k\<close>.\<close>

definition digit :: "nat \<Rightarrow> char" where
  "digit d = ''0123456789'' ! (d mod 10)"

fun pad :: "nat \<Rightarrow> nat \<Rightarrow> string" where
  "pad 0 k = []"
| "pad (Suc n) k = pad n (k div 10) @ [digit k]"

text \<open>A number in a template literal: a natural number in decimal, no leading zero.\<close>

fun decimal :: "nat \<Rightarrow> string" where
  "decimal k = (if k < 10 then [digit k] else decimal (k div 10) @ [digit k])"

text \<open>
  \<open>Date.prototype.toISOString\<close>: the UTC calendar date and time of a time value as
  \<open>YYYY-MM-DDTHH:mm:ss.sssZ\<close> (a signed six-digit year outside 0..9999), and a
  RangeError for an Invalid Date. \<open>civil\<close> turns a day number since the epoch into
  year, month and day of the proleptic Gregorian calendar.
\<close>

definition civil :: "int \<Rightarrow> int \<times> int \<times> int" where
  "civil days =
     (let z = days + 719468;
          era = z div 146097;
          doe = z mod 146097;
          yoe = (doe - doe div 1460 + doe div 36524 - doe div 146096) div 365;
          doy = doe - (365 * yoe + yoe div 4 - yoe div 100);
          mp = (5 * doy + 2) div 153;
          d = doy - (153 * mp + 2) div 5 + 1;
          m = (if mp < 10 then mp + 3 else mp - 9);
          y = yoe + era * 400
      in (if m \<le> 2 then y + 1 else y, m, d))"

definition yearString :: "int \<Rightarrow> string" where
  "yearString y =
     (if 0 \<le> y \<and> y \<le> 9999 then pad 4 (nat y)
      else (if y < 0 then ''-'' else ''+'') @ pad 6 (nat \<bar>y\<bar>))"

definition isoDate :: "int \<Rightarrow> string" where
  "isoDate t =
     (case civil (t div 86400000) of
        (y, m, d) \<Rightarrow> yearString y @ ''-'' @ pad 2 (nat m) @ ''-'' @ pad 2 (nat d))"

definition isoTime :: "int \<Rightarrow> string" where
  "isoTime t =
     (let ms = nat (t mod 86400000) in
      pad 2 (ms div 3600000) @ '':'' @ pad 2 (ms div 60000 mod 60) @ '':'' @
      pad 2 (ms div 1000 mod 60) @ ''.'' @ pad 3 (ms mod 1000))"

definition isoString :: "int \<Rightarrow> string" where
  "isoString t = isoDate t @ ''T'' @ isoTime t @ ''Z''"

definition toISOString :: "int option \<Rightarrow> exn + string" where
  "toISOString d =
     (case d of None \<Rightarrow> Inl (RangeError ''Invalid time value'')
      | Some t \<Rightarrow> Inr (isoString t))"

text \<open>\<open>s.split('T')[0]\<close>: the part of \<open>s\<close> before its first \<open>T\<close>.\<close>

definition splitT0 :: "string \<Rightarrow> string" where
  "splitT0 s = takeWhile (\<lambda>c. c \<noteq> CHR ''T'') s"

text \<open>
  The clock and the calendar of the server's time zone: \<open>new Date()\<close>, \<open>getDate\<close> (the
  local day of the month of a time value) and \<open>setDate\<close> (the time value with that day
  replaced by a day number, which may fall outside the month; an Invalid Date when the
  result leaves the range of time values). \<open>utcHost\<close> is the host of a server whose
  zone is UTC.
\<close>

record Host =
  now :: int
  getDate :: "int \<Rightarrow> int"
  setDate :: "int \<Rightarrow> int \<Rightarrow> int option"

definition utcHost :: "int \<Rightarrow> Host" where
  "utcHost clock =
     \<lparr>now = clock,
      getDate = (\<lambda>t. snd (snd (civil (t div 86400000)))),
      setDate = (\<lambda>t d. newDate (t + (d - snd (snd (civil (t div 86400000)))) * 86400000))\<rparr>"

subsection \<open>Request, upstream reply and response\<close>

text \<open>
  \<open>req.query\<close>: each parameter is absent or a string. The upstream feature collection:
  \<open>geometry.coordinates\<close> is an array, \<open>properties\<close> a bag of the fields the handler
  reads (written with the prefix \<open>props_\<close>); \<open>features\<close> and \<open>metadata\<close> may be
  absent (the fields of the metadata are written with the prefix \<open>metadata_\<close>).
\<close>

record Query =
  minmagnitude :: "string option"
  limit :: "string option"
  format :: "string option"
  starttime :: "string option"
  endtime :: "string option"

record Properties =
  props_mag :: jsnum
  props_place :: string
  props_time :: int
  props_title :: string
  props_url :: string
  props_tsunami :: int
  props_type :: string
  props_status :: string
  props_updated :: int

record Feature =
  feature_id :: string
  coordinates :: "jsnum list"
  properties :: Properties

record Metadata =
  metadata_generated :: "int option"
  metadata_url :: "string option"
  metadata_title :: "string option"
  metadata_count :: "nat option"

record FeatureCollection =
  features :: "Feature list option"
  metadata :: "Metadata option"

text \<open>
  The outbound request (its \<open>method\<close> is written \<open>httpMethod\<close>; the query string
  is kept as the list of pairs appended to the \<open>URLSearchParams\<close>, its
  percent-encoding is not modelled), and what \<open>fetch\<close> gives: a
  rejection, or a response with its status and the outcome of \<open>response.json()\<close> (a
  parse error's message, or the parsed body).
\<close>

record Request =
  httpMethod :: string
  baseUrl :: string
  params :: "(string \<times> string) list"
  headers :: "(string \<times> string) list"

datatype Reply = Rejected string | Response nat "string + FeatureCollection"

record SuccessBody =
  count :: nat
  earthquakes' :: "EarthquakeEvent list"
  metadata' :: Metadata

record ErrorBody =
  error :: string
  details :: string

datatype HttpResponse = Json200 SuccessBody | Json500 ErrorBody

subsection \<open>The handler (proxy, lines 11-121)\<close>

definition USGS_BASE_URL :: string where
  "USGS_BASE_URL = ''https://earthquake.usgs.gov/fdsnws/event/1/query''"

text \<open>A destructuring default applies when the parameter is absent.\<close>

definition orDefault :: "string option \<Rightarrow> string \<Rightarrow> string" where
  "orDefault p d = (case p of None \<Rightarrow> d | Some s \<Rightarrow> s)"

text \<open>\<open>if (starttime)\<close>: an absent parameter and an empty string are falsy.\<close>

definition truthy :: "string option \<Rightarrow> bool" where
  "truthy p = (case p of None \<Rightarrow> False | Some s \<Rightarrow> s \<noteq> [])"

definition thirtyDaysAgo :: "Host \<Rightarrow> int option" where
  "thirtyDaysAgo host = setDate host (now host) (getDate host (now host) - 30)"

definition buildParams :: "Host \<Rightarrow> Query \<Rightarrow> exn + (string \<times> string) list" where
  "buildParams host q =
     (let params0 =
            [(''format'', orDefault (format q) ''geojson''),
             (''minmagnitude'', orDefault (minmagnitude q) ''4.5''),
             (''limit'', orDefault (limit q) ''1000''),
             (''orderby'', ''time'')];
          params1 =
            (if truthy (starttime q) then Inr (params0 @ [(''starttime'', orDefault (starttime q) [])])
             else (case toISOString (thirtyDaysAgo host) of
                     Inl e \<Rightarrow> Inl e
                   | Inr s \<Rightarrow> Inr (params0 @ [(''starttime'', splitT0 s)])))
      in (case params1 of
            Inl e \<Rightarrow> Inl e
          | Inr ps \<Rightarrow>
              Inr (if truthy (endtime q) then ps @ [(''endtime'', orDefault (endtime q) [])] else ps)))"

definition upstreamRequest :: "(string \<times> string) list \<Rightarrow> Request" where
  "upstreamRequest ps =
     \<lparr>httpMethod = ''GET'', baseUrl = USGS_BASE_URL, params = ps,
      headers = [(''Accept'', ''application/json''), (''User-Agent'', ''Visual-Globe-App/1.0'')]\<rparr>"

text \<open>\<open>response.ok\<close>: a status from 200 to 299.\<close>

definition ok :: "nat \<Rightarrow> bool" where
  "ok st = (200 \<le> st \<and> st \<le> 299)"

text \<open>\<open>coords[i]\<close>: \<open>undefined\<close> past the end of the array.\<close>

definition elementAt :: "jsnum list \<Rightarrow> nat \<Rightarrow> jsnum" where
  "elementAt coords i = (if i < length coords then coords ! i else JUndefined)"

text \<open>The callback of \<open>data.features.map\<close>: \<open>toISOString\<close> may throw.\<close>

definition processed :: "Feature \<Rightarrow> exn + EarthquakeEvent" where
  "processed earthquake =
     (let coords = coordinates earthquake; props = properties earthquake in
      case toISOString (newDate (props_time props)) of
        Inl e \<Rightarrow> Inl e
      | Inr s \<Rightarrow>
          Inr \<lparr>id' = feature_id earthquake,
               lat = elementAt coords 1,
               lng = elementAt coords 0,
               depth = elementAt coords 2,
               magnitude = props_mag props,
               place = props_place props,
               time = props_time props,
               timeString = s,
               title = props_title props,
               url = props_url props,
               tsunami = props_tsunami props,
               type' = props_type props,
               status = props_status props,
               updated = props_updated props\<rparr>)"

text \<open>\<open>Array.prototype.map\<close> with a callback that may throw: the first throw ends it.\<close>

fun mapProcessed :: "Feature list \<Rightarrow> exn + EarthquakeEvent list" where
  "mapProcessed [] = Inr []"
| "mapProcessed (f # fs) =
     (case processed f of
        Inl e \<Rightarrow> Inl e
      | Inr p \<Rightarrow> (case mapProcessed fs of Inl e \<Rightarrow> Inl e | Inr ps \<Rightarrow> Inr (p # ps)))"

definition processedData :: "FeatureCollection \<Rightarrow> exn + EarthquakeEvent list" where
  "processedData data =
     (case features data of None \<Rightarrow> Inr [] | Some fs \<Rightarrow> mapProcessed fs)"

definition passMetadata :: "FeatureCollection \<Rightarrow> Metadata" where
  "passMetadata data =
     (case metadata data of
        None \<Rightarrow> \<lparr>metadata_generated = None, metadata_url = None, metadata_title = None,
                 metadata_count = None\<rparr>
      | Some m \<Rightarrow> m)"

text \<open>The \<open>catch\<close> block.\<close>

definition failed :: "exn \<Rightarrow> HttpResponse" where
  "failed e = Json500 \<lparr>error = ''Failed to fetch earthquake data'', details = message e\<rparr>"

text \<open>
  The handler, given the host, the query and the upstream (what \<open>fetch\<close> gives for a
  request): the response sent, and the requests issued to the upstream, in order.
\<close>

definition handler :: "Host \<Rightarrow> (Request \<Rightarrow> Reply) \<Rightarrow> Query \<Rightarrow> HttpResponse \<times> Request list" where
  "handler host upstream q =
     (case buildParams host q of
        Inl e \<Rightarrow> (failed e, [])
      | Inr ps \<Rightarrow>
          (let request = upstreamRequest ps in
           case upstream request of
             Rejected m \<Rightarrow> (failed (Error m), [request])
           | Response st body \<Rightarrow>
               if \<not> ok st then
                 (failed (Error (''USGS API responded with status '' @ decimal st)), [request])
               else
                 (case body of
                    Inl m \<Rightarrow> (failed (Error m), [request])
                  | Inr data \<Rightarrow>
                      (case processedData data of
                         Inl e \<Rightarrow> (failed e, [request])
                       | Inr evs \<Rightarrow>
                           (Json200 \<lparr>count = length evs, earthquakes' = evs,
                                     metadata' = passMetadata data\<rparr>, [request])))))"

subsection \<open>The event of a feature as the specification words it\<close>

text \<open>
  One event for a feature: latitude, longitude and depth are the second, first and third
  coordinate, the other fields are the properties of the same name, and \<open>timeString\<close> is
  the ISO-8601 rendering of \<open>time\<close>.
\<close>

definition eventOfFeature :: "Feature \<Rightarrow> EarthquakeEvent" where
  "eventOfFeature f =
     \<lparr>id' = feature_id f,
      lat = elementAt (coordinates f) 1,
      lng = elementAt (coordinates f) 0,
      depth = elementAt (coordinates f) 2,
      magnitude = props_mag (properties f),
      place = props_place (properties f),
      time = props_time (properties f),
      timeString = isoString (props_time (properties f)),
      title = props_title (properties f),
      url = props_url (properties f),
      tsunami = props_tsunami (properties f),
      type' = props_type (properties f),
      status = props_status (properties f),
      updated = props_updated (properties f)\<rparr>"

text \<open>
  The upstream's query interface sorts by time, newest first, for \<open>orderby=time\<close>; it
  sorts by time ascending for \<open>orderby=time-asc\<close>. A query asks for ascending time
  order when it carries the latter.
\<close>

definition ascendingByTime :: "(string \<times> string) list \<Rightarrow> bool" where
  "ascendingByTime ps = (map_of ps ''orderby'' = Some ''time-asc'')"

subsection \<open>The animation's invariant\<close>

text \<open>
  Every live interval holds the length of the list now filtered, and the index is zero or
  below that length.
\<close>

definition animInv :: "'a View \<Rightarrow> bool" where
  "animInv v =
     ((\<forall>t \<in> set (timers v). snd t = length (filteredEarthquakes v)) \<and>
      (animationIndex v = 0 \<or> animationIndex v < length (filteredEarthquakes v)))"

section \<open>Sample inputs\<close>

text \<open>An event at given coordinates, the other fields blank: a point on the globe.\<close>

definition pointAt :: "real \<Rightarrow> real \<Rightarrow> EarthquakeEvent" where
  "pointAt la lo =
     \<lparr>id' = [], lat = JNum la, lng = JNum lo, depth = JNum 0, magnitude = JNum 5,
      place = [], time = 0, timeString = [], title = [], url = [], tsunami = 0,
      type' = [], status = [], updated = 0\<rparr>"

text \<open>
  The feature of the specification's example, and the event the proxy makes of it.
\<close>

definition tokyoFeature :: Feature where
  "tokyoFeature =
     \<lparr>feature_id = ''us7000tokyo'',
      coordinates = [JNum 139.7, JNum 35.7, JNum 10],
      properties =
        \<lparr>props_mag = JNum 6.2, props_place = ''Tokyo, Japan'', props_time = 1700000000000,
         props_title = ''M 6.2 - Tokyo, Japan'', props_url = ''https://earthquake.usgs.gov'',
         props_tsunami = 0, props_type = ''earthquake'', props_status = ''reviewed'',
         props_updated = 1700000100000\<rparr>\<rparr>"

definition tokyo :: EarthquakeEvent where
  "tokyo =
     \<lparr>id' = ''us7000tokyo'', lat = JNum 35.7, lng = JNum 139.7, depth = JNum 10,
      magnitude = JNum 6.2, place = ''Tokyo, Japan'', time = 1700000000000,
      timeString = ''2023-11-14T22:13:20.000Z'', title = ''M 6.2 - Tokyo, Japan'',
      url = ''https://earthquake.usgs.gov'', tsunami = 0, type' = ''earthquake'',
      status = ''reviewed'', updated = 1700000100000\<rparr>"

text \<open>
  Three fetched events of magnitude 5, 5.5 and 6.2, and a session on them: the effect
  filters them with the initial filters (all three pass), the user starts the animation,
  the interval fires twice, and the user presses the quick filter \<open>Major 6.0+\<close> (line
  699), which sets \<open>minMagnitude\<close> to 6.
\<close>

definition threeQuakes :: "EarthquakeEvent list" where
  "threeQuakes = [tokyo\<lparr>magnitude := JNum 5\<rparr>, tokyo\<lparr>magnitude := JNum 5.5\<rparr>, tokyo]"

definition refilterWhileRunning :: "transition list" where
  "refilterWhileRunning =
     [SetFilters initialFilters, Start, Tick 0, Tick 0,
      SetFilters (initialFilters\<lparr>minMagnitude := 6\<rparr>)]"

text \<open>
  A host's date parser at the one date the examples use: midnight UTC of 1 November 2023.
\<close>

definition sampleParse :: "string \<Rightarrow> int option" where
  "sampleParse s = (if s = ''2023-11-01'' then Some 1698796800000 else None)"

definition sampleFilters :: FilterState where
  "sampleFilters =
     \<lparr>minMagnitude = 6.0, maxMagnitude = 10.0, startDate = ''2023-11-01'', endDate = [],
      region = ''all'', searchTerm = ''japan''\<rparr>"

text \<open>A request with no parameter, and an upstream that answers 503 to every request.\<close>

definition emptyQuery :: Query where
  "emptyQuery =
     \<lparr>minmagnitude = None, limit = None, format = None, starttime = None, endtime = None\<rparr>"

definition unavailable :: "Request \<Rightarrow> Reply" where
  "unavailable r = Response 503 (Inl ''Service Unavailable'')"

definition defaultParams :: "(string \<times> string) list" where
  "defaultParams =
     [(''format'', ''geojson''), (''minmagnitude'', ''4.5''), (''limit'', ''1000''),
      (''orderby'', ''time''), (''starttime'', ''2023-10-15'')]"

text \<open>
  The host of a server in New York during 2024: local time is UTC-5, and UTC-4 from
  10 March 07:00 UTC to 3 November 06:00 UTC. \<open>newYorkOffset\<close> is the offset at an
  instant, \<open>newYorkOffsetLocal\<close> the offset at a local time (read before the change in
  the hours a change skips or repeats). \<open>getDate\<close> reads the day of the local date;
  \<open>setDate\<close> moves the local date and keeps the local time of day. The clock of
  \<open>newYorkEvening\<close> stands at 2024-03-30T23:59:59.999Z, 19:59:59.999 local time.
\<close>

definition newYorkOffset :: "int \<Rightarrow> int" where
  "newYorkOffset t =
     (if 1710054000000 \<le> t \<and> t < 1730613600000 then - 14400000 else - 18000000)"

definition newYorkOffsetLocal :: "int \<Rightarrow> int" where
  "newYorkOffsetLocal l =
     (if 1710039600000 \<le> l \<and> l < 1730599200000 then - 14400000 else - 18000000)"

definition newYorkGetDate :: "int \<Rightarrow> int" where
  "newYorkGetDate t = snd (snd (civil ((t + newYorkOffset t) div 86400000)))"

definition newYorkSetDate :: "int \<Rightarrow> int \<Rightarrow> int option" where
  "newYorkSetDate t d =
     (let l = t + newYorkOffset t + (d - newYorkGetDate t) * 86400000
      in newDate (l - newYorkOffsetLocal l))"

definition newYorkEvening :: Host where
  "newYorkEvening =
     \<lparr>now = 1711843199999, getDate = newYorkGetDate, setDate = newYorkSetDate\<rparr>"

section \<open>Auxiliary facts\<close>

lemmas js_cmp = js_lt_def js_gt_def js_le_def js_ge_def

lemma color_steps:
  "getMagnitudeColor (JNum m) =
     (if m \<ge> 7 then ''#ff0000'' else if m \<ge> 6 then ''#ff4500''
      else if m \<ge> 5 then ''#ff8c00'' else if m \<ge> 4 then ''#ffd700'' else ''#90ee90'')"
  by (simp add: getMagnitudeColor_def js_cmp)

lemma size_linear: "getMagnitudeSize (JNum m) = Some (max 0.15 (m * 0.15))"
  by (simp add: getMagnitudeSize_def Math_max_def js_times_def)

lemma startsWith_prefix: "startsWith s t \<longleftrightarrow> prefix t s"
  by (induction s t rule: startsWith.induct) auto

lemma includes_sublist: "includes' s t \<longleftrightarrow> sublist t s"
proof (induction s)
  case Nil
  show ?case by simp
next
  case (Cons d s)
  show ?case using Cons.IH by (simp add: startsWith_prefix sublist_Cons_right)
qed

lemma passes_iff_all_five:
  assumes "wellFormedEvent e"
  shows "passesFilters parse fs e \<longleftrightarrow> allFivePredicates parse fs e"
proof -
  from assms have t: "newDate (time e) = Some (time e)"
    by (auto simp: wellFormedEvent_def newDate_def split: if_splits)
  from assms obtain m where m: "toNumber (magnitude e) = Some m"
    by (cases "magnitude e") (auto simp: wellFormedEvent_def)
  show ?thesis
    unfolding passesFilters_def allFivePredicates_def magnitudePredicate_def
      startDatePredicate_def endDatePredicate_def regionPredicate_def searchPredicate_def
      dateBound_def
    by (auto simp: t m js_cmp valueOf_def includes_sublist split: option.splits)
qed

lemma null_magnitude_rejected:
  "magnitude e = JNull \<Longrightarrow> 0 < minMagnitude fs \<Longrightarrow> \<not> passesFilters parse fs e"
  by (simp add: passesFilters_def js_cmp)

lemma sample_filter_run:
  "filterEarthquakes sampleParse sampleFilters
     [tokyo\<lparr>magnitude := JNum 5.9\<rparr>, tokyo, tokyo\<lparr>place := ''Los Angeles, CA''\<rparr>] = [tokyo]"
  by (simp add: filterEarthquakes_def passesFilters_def tokyo_def sampleFilters_def
      sampleParse_def js_cmp valueOf_def newDate_def maxTimeValue_def isInRegion_def
      toLowerCase_def toLowerCaseChar_def)

subsection \<open>The animation\<close>

lemma animInv_stopped: "animInv (stoppedView a shown fs)"
  by (simp add: animInv_def stoppedView_def)

lemma step_filtered:
  "animationOnly t \<Longrightarrow> filteredEarthquakes (step parse v t) = filteredEarthquakes v"
  by (cases t)
    (simp_all add: startAnimation_def stopAnimation_def animate_def Let_def split: option.splits)

lemma captured_length:
  assumes "animInv v" "map_of (timers v) h = Some n"
  shows "n = length (filteredEarthquakes v)"
proof -
  from assms(2) have "(h, n) \<in> set (timers v)" by (rule map_of_SomeD)
  with assms(1) show ?thesis by (auto simp: animInv_def)
qed

lemma animInv_step:
  assumes inv: "animInv v" and t: "animationOnly t"
  shows "animInv (step parse v t)"
proof (cases t)
  case Start
  with inv show ?thesis by (auto simp: animInv_def startAnimation_def)
next
  case Stop
  with inv show ?thesis by (auto simp: animInv_def stopAnimation_def clearInterval_def)
next
  case (Tick h)
  show ?thesis
  proof (cases "map_of (timers v) h")
    case None
    with inv Tick show ?thesis by simp
  next
    case (Some n)
    with inv have "n = length (filteredEarthquakes v)" by (simp add: captured_length)
    with inv Some Tick show ?thesis by (auto simp: animInv_def animate_def Let_def)
  qed
next
  case (SetFilters fs)
  with t show ?thesis by simp
qed

lemma animInv_run: "animInv v \<Longrightarrow> list_all animationOnly ts \<Longrightarrow> animInv (run parse v ts)"
  unfolding run_def by (induction ts arbitrary: v) (simp_all add: animInv_step)

text \<open>
  While nothing changes the filtered list, the index stays within it: after any sequence
  of start, tick and stop from a stopped view, the index is at most the length of the
  filtered list.
\<close>

lemma index_bounded_while_list_unchanged:
  assumes "list_all animationOnly ts"
  shows "animationIndex (run parse (stoppedView a shown fs) ts) \<le>
         length (filteredEarthquakes (run parse (stoppedView a shown fs) ts))"
proof -
  have "animInv (run parse (stoppedView a shown fs) ts)"
    using animInv_stopped assms by (rule animInv_run)
  then show ?thesis by (auto simp: animInv_def)
qed

lemma initial_filters_keep_threeQuakes:
  "filterEarthquakes sampleParse initialFilters threeQuakes = threeQuakes"
  by (simp add: filterEarthquakes_def passesFilters_def threeQuakes_def tokyo_def
      initialFilters_def js_cmp isInRegion_def)

lemma major_filter_keeps_tokyo:
  "filterEarthquakes sampleParse (initialFilters\<lparr>minMagnitude := 6\<rparr>) threeQuakes = [tokyo]"
  by (simp add: filterEarthquakes_def passesFilters_def threeQuakes_def tokyo_def
      initialFilters_def js_cmp isInRegion_def)

lemma length_threeQuakes: "length threeQuakes = 3"
  by (simp add: threeQuakes_def)

lemma threeQuakes_not_empty: "threeQuakes \<noteq> []"
  by (simp add: threeQuakes_def)

lemma refilter_run:
  "run sampleParse (stoppedView threeQuakes [] initialFilters) refilterWhileRunning =
     \<lparr>earthquakes = threeQuakes, filteredEarthquakes = [tokyo],
      filters = initialFilters\<lparr>minMagnitude := 6\<rparr>,
      isAnimating = True, animationIndex = 2, timers = [(0, 3)], nextHandle = 1,
      animationRef = Some 0\<rparr>"
  by (simp add: run_def refilterWhileRunning_def stoppedView_def setFilters_def applyFilters_def
      startAnimation_def animate_def initial_filters_keep_threeQuakes major_filter_keeps_tokyo
      length_threeQuakes threeQuakes_not_empty Let_def)

subsection \<open>Dates in ISO format\<close>

lemma digit_in: "digit k \<in> set ''0123456789''"
  unfolding digit_def by (rule nth_mem) simp

lemma pad_digits: "set (pad n k) \<subseteq> set ''0123456789''"
proof (induction n arbitrary: k)
  case 0
  show ?case by simp
next
  case (Suc n)
  have "digit k \<in> set ''0123456789''" by (rule digit_in)
  with Suc[of "k div 10"] show ?case by simp
qed

lemma pad_no_T: "CHR ''T'' \<notin> set (pad n k)"
  using pad_digits[of n k] by auto

lemma length_pad: "length (pad n k) = n"
  by (induction n arbitrary: k) simp_all

lemma pad_numeral: "pad (numeral n) k = pad (pred_numeral n) (k div 10) @ [digit k]"
  by (subst numeral_eq_Suc) simp

lemma isoDate_no_T: "CHR ''T'' \<notin> set (isoDate t)"
  by (simp add: isoDate_def yearString_def pad_no_T split: prod.splits)

lemma splitT0_isoString: "splitT0 (isoString t) = isoDate t"
proof -
  have "\<forall>c\<in>set (isoDate t). c \<noteq> CHR ''T''"
    using isoDate_no_T[of t] by auto
  then have "takeWhile (\<lambda>c. c \<noteq> CHR ''T'') (isoDate t @ CHR ''T'' # (isoTime t @ ''Z'')) = isoDate t"
    by (simp add: takeWhile_tail)
  then show ?thesis by (simp add: splitT0_def isoString_def)
qed

lemma isoDate_shape:
  assumes "civil (t div 86400000) = (y, m, d)" "0 \<le> y" "y \<le> 9999"
  shows "length (isoDate t) = 10 \<and> isoDate t ! 4 = CHR ''-'' \<and> isoDate t ! 7 = CHR ''-''"
  using assms by (simp add: isoDate_def yearString_def length_pad nth_append)

lemma civil_19675: "civil 19675 = (2023, 11, 14)"
  unfolding civil_def Let_def by simp

lemma civil_19645: "civil 19645 = (2023, 10, 15)"
  unfolding civil_def Let_def by simp

lemma isoString_tokyo: "isoString 1700000000000 = ''2023-11-14T22:13:20.000Z''"
  by (simp add: isoString_def isoDate_def isoTime_def civil_19675 yearString_def pad_numeral
      digit_def)

lemma isoDate_sample: "isoDate 1697408000000 = ''2023-10-15''"
  by (simp add: isoDate_def civil_19645 yearString_def pad_numeral digit_def)

subsection \<open>The proxy\<close>

lemma mapProcessed_valid:
  "\<forall>f\<in>set fs. newDate (props_time (properties f)) \<noteq> None \<Longrightarrow>
     mapProcessed fs = Inr (map eventOfFeature fs)"
proof (induction fs)
  case Nil
  show ?case by simp
next
  case (Cons f fs)
  from Cons.prems have t: "newDate (props_time (properties f)) = Some (props_time (properties f))"
    by (auto simp: newDate_def split: if_splits)
  have "processed f = Inr (eventOfFeature f)"
    by (simp add: processed_def eventOfFeature_def toISOString_def t Let_def)
  moreover have "mapProcessed fs = Inr (map eventOfFeature fs)"
    using Cons by simp
  ultimately show ?case by simp
qed

lemma eventOfFeature_tokyo: "eventOfFeature tokyoFeature = tokyo"
  by (simp add: eventOfFeature_def tokyoFeature_def tokyo_def elementAt_def isoString_tokyo)

lemma buildParams_eq:
  assumes "thirtyDaysAgo host = Some t"
  shows "buildParams host q =
     Inr ([(''format'', orDefault (format q) ''geojson''),
           (''minmagnitude'', orDefault (minmagnitude q) ''4.5''),
           (''limit'', orDefault (limit q) ''1000''),
           (''orderby'', ''time''),
           (''starttime'', if truthy (starttime q) then orDefault (starttime q) [] else isoDate t)]
          @ (if truthy (endtime q) then [(''endtime'', orDefault (endtime q) [])] else []))"
  using assms by (simp add: buildParams_def Let_def toISOString_def splitT0_isoString)

lemma handler_requests:
  "buildParams host q = Inr ps \<Longrightarrow> snd (handler host upstream q) = [upstreamRequest ps]"
  by (simp add: handler_def Let_def split: Reply.splits sum.splits)

lemma handler_success:
  assumes "buildParams host q = Inr ps"
    and "upstream (upstreamRequest ps) = Response st (Inr data)" and "ok st"
    and "processedData data = Inr evs"
  shows "fst (handler host upstream q) =
     Json200 \<lparr>count = length evs, earthquakes' = evs, metadata' = passMetadata data\<rparr>"
  using assms by (simp add: handler_def Let_def)

lemma utc_thirtyDaysAgo: "thirtyDaysAgo (utcHost clock) = newDate (clock - 30 * 86400000)"
  by (simp add: thirtyDaysAgo_def utcHost_def algebra_simps)

lemma sample_thirtyDaysAgo: "thirtyDaysAgo (utcHost 1700000000000) = Some 1697408000000"
  by (simp add: utc_thirtyDaysAgo newDate_def maxTimeValue_def)

lemma sample_buildParams: "buildParams (utcHost 1700000000000) emptyQuery = Inr defaultParams"
  by (simp add: buildParams_eq[OF sample_thirtyDaysAgo] emptyQuery_def orDefault_def truthy_def
      isoDate_sample defaultParams_def)

lemma decimal_503: "decimal 503 = ''503''"
  by (simp add: digit_def)

text \<open>
  What the handler's query does hold for every request, on a host whose \<open>setDate\<close>
  gives a time value \<open>t\<close>: one GET, the three defaults, \<open>orderby=time\<close>, the UTC
  date of \<open>t\<close> as the default \<open>starttime\<close>, and no \<open>endtime\<close> when absent.
\<close>

lemma query_defaults:
  assumes "thirtyDaysAgo host = Some t"
  shows "\<exists>ps. buildParams host q = Inr ps \<and>
     snd (handler host upstream q) = [upstreamRequest ps] \<and>
     httpMethod (upstreamRequest ps) = ''GET'' \<and> baseUrl (upstreamRequest ps) = USGS_BASE_URL \<and>
     map_of ps ''format'' = Some (case format q of None \<Rightarrow> ''geojson'' | Some s \<Rightarrow> s) \<and>
     map_of ps ''minmagnitude'' = Some (case minmagnitude q of None \<Rightarrow> ''4.5'' | Some s \<Rightarrow> s) \<and>
     map_of ps ''limit'' = Some (case limit q of None \<Rightarrow> ''1000'' | Some s \<Rightarrow> s) \<and>
     map_of ps ''orderby'' = Some ''time'' \<and>
     (starttime q = None \<longrightarrow> map_of ps ''starttime'' = Some (isoDate t)) \<and>
     (endtime q = None \<longrightarrow> map_of ps ''endtime'' = None)"
proof -
  define ps where "ps =
    [(''format'', orDefault (format q) ''geojson''),
     (''minmagnitude'', orDefault (minmagnitude q) ''4.5''),
     (''limit'', orDefault (limit q) ''1000''),
     (''orderby'', ''time''),
     (''starttime'', if truthy (starttime q) then orDefault (starttime q) [] else isoDate t)]
    @ (if truthy (endtime q) then [(''endtime'', orDefault (endtime q) [])] else [])"
  have ps: "buildParams host q = Inr ps"
    unfolding ps_def using assms by (rule buildParams_eq)
  have req: "snd (handler host upstream q) = [upstreamRequest ps]"
    using ps by (rule handler_requests)
  have fields: "httpMethod (upstreamRequest ps) = ''GET'' \<and>
      baseUrl (upstreamRequest ps) = USGS_BASE_URL"
    by (simp add: upstreamRequest_def)
  have look: "map_of ps ''format'' = Some (case format q of None \<Rightarrow> ''geojson'' | Some s \<Rightarrow> s) \<and>
     map_of ps ''minmagnitude'' = Some (case minmagnitude q of None \<Rightarrow> ''4.5'' | Some s \<Rightarrow> s) \<and>
     map_of ps ''limit'' = Some (case limit q of None \<Rightarrow> ''1000'' | Some s \<Rightarrow> s) \<and>
     map_of ps ''orderby'' = Some ''time'' \<and>
     (starttime q = None \<longrightarrow> map_of ps ''starttime'' = Some (isoDate t)) \<and>
     (endtime q = None \<longrightarrow> map_of ps ''endtime'' = None)"
    unfolding ps_def by (simp add: orDefault_def truthy_def)
  show ?thesis
    using ps req fields look by (intro exI[of _ ps]) simp
qed

lemma civil_19812: "civil 19812 = (2024, 3, 30)"
  unfolding civil_def Let_def by simp

lemma civil_19783: "civil 19783 = (2024, 3, 1)"
  unfolding civil_def Let_def by simp

lemma civil_19782: "civil 19782 = (2024, 2, 29)"
  unfolding civil_def Let_def by simp

lemma newYork_thirtyDaysAgo: "thirtyDaysAgo newYorkEvening = Some 1709254799999"
  by (simp add: thirtyDaysAgo_def newYorkEvening_def newYorkSetDate_def newYorkGetDate_def
      newYorkOffset_def newYorkOffsetLocal_def civil_19812 newDate_def maxTimeValue_def)

lemma isoDate_newYork: "isoDate 1709254799999 = ''2024-03-01''"
  by (simp add: isoDate_def civil_19783 yearString_def pad_numeral digit_def)

section \<open>The filter engine\<close>

text \<open>
  Claim C1. For every list of events and every filter state, the filter engine returns
  exactly the events that satisfy all five predicates (magnitude bounds, start date when
  set, end date when set, region, case-insensitive search in the place), in the order of
  the source: the result is the source list filtered by the conjunction, and it is a
  subsequence of the source list. The events are those of the data model: a magnitude
  that is a number or \<open>null\<close> and a time that is a time value.
\<close>

theorem filter_engine_conjunction:
  assumes "\<forall>e\<in>set evs. wellFormedEvent e"
  shows "filterEarthquakes parse fs evs = filter (allFivePredicates parse fs) evs \<and>
         subseq (filterEarthquakes parse fs evs) evs \<and>
         filteredEarthquakes (applyFilters parse (v\<lparr>earthquakes := evs, filters := fs\<rparr>)) =
           filter (allFivePredicates parse fs) evs"
proof -
  have eq: "filterEarthquakes parse fs evs = filter (allFivePredicates parse fs) evs"
    unfolding filterEarthquakes_def
    using assms by (auto intro!: filter_cong simp: passes_iff_all_five)
  have sub: "subseq (filterEarthquakes parse fs evs) evs"
    by (simp add: filterEarthquakes_def)
  have "filteredEarthquakes (applyFilters parse (v\<lparr>earthquakes := evs, filters := fs\<rparr>)) =
          filterEarthquakes parse fs evs"
    by (simp add: applyFilters_def)
  with eq sub show ?thesis by simp
qed

theorem filter_engine_conjunction_witness:
  "wellFormedEvent (tokyo\<lparr>magnitude := JNum 5.9\<rparr>) \<and> wellFormedEvent tokyo \<and>
   wellFormedEvent (tokyo\<lparr>place := ''Los Angeles, CA''\<rparr>) \<and>
   filterEarthquakes sampleParse sampleFilters
     [tokyo\<lparr>magnitude := JNum 5.9\<rparr>, tokyo, tokyo\<lparr>place := ''Los Angeles, CA''\<rparr>] = [tokyo] \<and>
   filter (allFivePredicates sampleParse sampleFilters)
     [tokyo\<lparr>magnitude := JNum 5.9\<rparr>, tokyo, tokyo\<lparr>place := ''Los Angeles, CA''\<rparr>] = [tokyo] \<and>
   subseq [tokyo] [tokyo\<lparr>magnitude := JNum 5.9\<rparr>, tokyo, tokyo\<lparr>place := ''Los Angeles, CA''\<rparr>]"
proof -
  let ?evs = "[tokyo\<lparr>magnitude := JNum 5.9\<rparr>, tokyo, tokyo\<lparr>place := ''Los Angeles, CA''\<rparr>]"
  have wf: "wellFormedEvent (tokyo\<lparr>magnitude := JNum 5.9\<rparr>)" "wellFormedEvent tokyo"
    "wellFormedEvent (tokyo\<lparr>place := ''Los Angeles, CA''\<rparr>)"
    by (simp_all add: wellFormedEvent_def tokyo_def newDate_def maxTimeValue_def)
  then have all: "\<forall>e\<in>set ?evs. wellFormedEvent e" by simp
  note main = filter_engine_conjunction[OF all, of sampleParse sampleFilters]
  from main have eq: "filterEarthquakes sampleParse sampleFilters ?evs =
      filter (allFivePredicates sampleParse sampleFilters) ?evs"
    by (rule conjunct1)
  from main have sub: "subseq (filterEarthquakes sampleParse sampleFilters ?evs) ?evs"
    by (rule conjunct1[OF conjunct2])
  have a: "filter (allFivePredicates sampleParse sampleFilters) ?evs = [tokyo]"
    unfolding eq[symmetric] by (rule sample_filter_run)
  have b: "subseq [tokyo] ?evs"
    using sub unfolding sample_filter_run .
  show ?thesis
    by (intro conjI wf sample_filter_run a b)
qed

text \<open>
  Claim C8. Filtering is idempotent: the filter engine applied to its own output under the
  same filter state gives that output again; and running \<open>applyFilters\<close> twice leaves
  the state of the first run.
\<close>

theorem filter_engine_idempotent:
  "filterEarthquakes parse fs (filterEarthquakes parse fs evs) = filterEarthquakes parse fs evs \<and>
   applyFilters parse (applyFilters parse v) = applyFilters parse v"
  by (simp add: filterEarthquakes_def applyFilters_def)

text \<open>
  Claim C10. An event whose magnitude is \<open>null\<close> is compared as the number 0 by the
  magnitude test: the test rejects it below the minimum exactly when the minimum is
  positive, so the event is never in the filtered list when \<open>minMagnitude > 0\<close>, in
  particular under the initial filter state (minimum 4.5), whatever its date range.
\<close>

theorem null_magnitude_excluded:
  assumes "magnitude e = JNull"
  shows "toNumber (magnitude e) = Some 0 \<and>
         js_lt (toNumber (magnitude e)) (Some (minMagnitude fs)) = (0 < minMagnitude fs) \<and>
         (0 < minMagnitude fs \<longrightarrow> e \<notin> set (filterEarthquakes parse fs evs)) \<and>
         e \<notin> set (filterEarthquakes parse (initialFilters\<lparr>startDate := sd, endDate := ed\<rparr>) evs)"
proof -
  have "\<not> passesFilters parse (initialFilters\<lparr>startDate := sd, endDate := ed\<rparr>) e"
    using assms by (intro null_magnitude_rejected) (simp_all add: initialFilters_def)
  then show ?thesis
    using assms by (auto simp: filterEarthquakes_def js_cmp dest: null_magnitude_rejected)
qed

theorem null_magnitude_excluded_witness:
  "magnitude (tokyo\<lparr>magnitude := JNull\<rparr>) = JNull \<and> 0 < minMagnitude sampleFilters \<and>
   tokyo\<lparr>magnitude := JNull\<rparr> \<notin>
     set (filterEarthquakes sampleParse sampleFilters [tokyo\<lparr>magnitude := JNull\<rparr>, tokyo]) \<and>
   tokyo\<lparr>magnitude := JNull\<rparr> \<notin>
     set (filterEarthquakes sampleParse initialFilters [tokyo\<lparr>magnitude := JNull\<rparr>, tokyo])"
  using null_magnitude_excluded[of "tokyo\<lparr>magnitude := JNull\<rparr>" sampleFilters sampleParse
      "[tokyo\<lparr>magnitude := JNull\<rparr>, tokyo]" "[]" "[]"]
  by (simp add: sampleFilters_def initialFilters_def)

section \<open>Display attributes and regions\<close>

text \<open>
  Claim C4. \<open>getMagnitudeColor\<close> and \<open>getMagnitudeSize\<close> are functions of the
  magnitude alone: the colour is the five-bucket step function with breakpoints 7, 6, 5
  and 4, the size is \<open>max(0.15, magnitude * 0.15)\<close>, neither steps down when the
  magnitude grows, and magnitude 6.2 gives the colour \<open>#ff4500\<close> and the size 0.93.
\<close>

theorem magnitude_color_size:
  "getMagnitudeColor (JNum m) =
     (if m \<ge> 7 then ''#ff0000'' else if m \<ge> 6 then ''#ff4500''
      else if m \<ge> 5 then ''#ff8c00'' else if m \<ge> 4 then ''#ffd700'' else ''#90ee90'') \<and>
   getMagnitudeSize (JNum m) = Some (max 0.15 (m * 0.15)) \<and>
   (m \<le> m' \<longrightarrow>
      colorBucket (getMagnitudeColor (JNum m)) \<le> colorBucket (getMagnitudeColor (JNum m')) \<and>
      (\<exists>s s'. getMagnitudeSize (JNum m) = Some s \<and> getMagnitudeSize (JNum m') = Some s' \<and> s \<le> s')) \<and>
   getMagnitudeColor (JNum 6.2) = ''#ff4500'' \<and> getMagnitudeSize (JNum 6.2) = Some 0.93"
proof -
  have mono_color: "colorBucket (getMagnitudeColor (JNum m)) \<le> colorBucket (getMagnitudeColor (JNum m'))"
    if "m \<le> m'"
    using that by (simp add: color_steps colorBucket_def)
  have mono_size: "max 0.15 (m * 0.15) \<le> max 0.15 (m' * 0.15)" if "m \<le> m'"
    using that by (simp add: max_def)
  have "getMagnitudeColor (JNum 6.2) = ''#ff4500''" by (simp add: color_steps)
  moreover have "getMagnitudeSize (JNum 6.2) = Some 0.93" by (simp add: size_linear)
  ultimately show ?thesis
    using mono_color mono_size by (simp add: color_steps[of m] size_linear)
qed

theorem magnitude_color_size_witness:
  "(5::real) \<le> 6.5 \<and> colorBucket (getMagnitudeColor (JNum 5)) = 2 \<and>
   colorBucket (getMagnitudeColor (JNum 6.5)) = 3 \<and>
   getMagnitudeSize (JNum 5) = Some 0.75 \<and> getMagnitudeSize (JNum 6.5) = Some 0.975"
  using magnitude_color_size[of 5 "6.5"] by (simp add: colorBucket_def color_steps size_linear)

text \<open>
  Claim C5. The region test for \<open>all\<close> holds for every event; the test for
  \<open>americas\<close> holds exactly when the longitude lies in [-180, -30], so the point with
  longitude 100 and latitude 0 fails it; and each of the five named regions excludes a
  point outside its interval: longitude 0 for \<open>pacific-ring\<close> and \<open>asia-pacific\<close>,
  longitude 100 for \<open>americas\<close>, \<open>europe-africa\<close> and \<open>atlantic\<close>.
\<close>

theorem region_predicates:
  "isInRegion e ''all'' \<and>
   (isInRegion e ''americas'' \<longleftrightarrow>
      (\<exists>x. toNumber (lng e) = Some x \<and> - 180 \<le> x \<and> x \<le> - 30)) \<and>
   \<not> isInRegion (pointAt 0 100) ''americas'' \<and>
   \<not> isInRegion (pointAt 0 0) ''pacific-ring'' \<and>
   \<not> isInRegion (pointAt 0 0) ''asia-pacific'' \<and>
   \<not> isInRegion (pointAt 0 100) ''europe-africa'' \<and>
   \<not> isInRegion (pointAt 0 100) ''atlantic''"
proof -
  have "isInRegion e ''americas'' \<longleftrightarrow>
      (\<exists>x. toNumber (lng e) = Some x \<and> - 180 \<le> x \<and> x \<le> - 30)"
    by (auto simp add: isInRegion_def js_cmp Let_def split: option.splits)
  moreover have "isInRegion e ''all''"
    by (simp add: isInRegion_def)
  ultimately show ?thesis
    by (simp add: isInRegion_def js_cmp pointAt_def)
qed

text \<open>
  Claim C9. For every latitude and every longitude between -180 and 180, the
  \<open>pacific-ring\<close> test holds exactly when the longitude is at least 120 or at most
  -100: the disjunct bounded in latitude adds nothing, and the latitude does not matter.
\<close>

theorem pacific_ring_longitude_only:
  assumes "toNumber (lng e) = Some x" and "- 180 \<le> x" and "x \<le> 180"
  shows "isInRegion e ''pacific-ring'' \<longleftrightarrow> (x \<ge> 120 \<or> x \<le> - 100)"
  using assms by (auto simp add: isInRegion_def js_cmp Let_def split: option.splits)

theorem pacific_ring_longitude_only_witness:
  "toNumber (lng (pointAt 80 150)) = Some 150 \<and> (- 180::real) \<le> 150 \<and> (150::real) \<le> 180 \<and>
   isInRegion (pointAt 80 150) ''pacific-ring'' \<and> \<not> isInRegion (pointAt 80 0) ''pacific-ring''"
  using pacific_ring_longitude_only[of "pointAt 80 150" 150]
    pacific_ring_longitude_only[of "pointAt 80 0" 0]
  by (simp add: pointAt_def)

section \<open>The animation state machine\<close>

text \<open>
  Claim C6. The animation index never exceeds the length of the list now filtered, it is
  put back to 0 on completion and on stop, and while the animation runs the list
  displayed is the prefix of the filtered list whose length is the index. The component
  does not keep the first part. The interval's callback compares the index with the
  length of the list its closure holds, the one filtered when the animation started, and
  a change of the filters replaces the filtered list without touching the interval or the
  index. With three events filtered, the animation started and two ticks gone, the quick
  filter \<open>Major 6.0+\<close> leaves one event: the animation is still running with index 2
  over a list of length 1, the list displayed is the whole filtered list, and the next
  tick moves the index to completion against the old length 3.
\<close>

theorem animation_index_exceeds_after_refilter:
  "list_all animationOnly [Start, Tick 0, Tick 0] \<and>
   filteredEarthquakes
     (run sampleParse (stoppedView threeQuakes [] initialFilters) [SetFilters initialFilters]) =
     threeQuakes \<and>
   isAnimating (run sampleParse (stoppedView threeQuakes [] initialFilters) refilterWhileRunning) \<and>
   animationIndex (run sampleParse (stoppedView threeQuakes [] initialFilters) refilterWhileRunning) = 2 \<and>
   filteredEarthquakes (run sampleParse (stoppedView threeQuakes [] initialFilters) refilterWhileRunning) =
     [tokyo] \<and>
   \<not> animationIndex (run sampleParse (stoppedView threeQuakes [] initialFilters) refilterWhileRunning)
       \<le> length (filteredEarthquakes
           (run sampleParse (stoppedView threeQuakes [] initialFilters) refilterWhileRunning)) \<and>
   displayEarthquakes (run sampleParse (stoppedView threeQuakes [] initialFilters) refilterWhileRunning) =
     [tokyo] \<and>
   map_of (timers (run sampleParse (stoppedView threeQuakes [] initialFilters) refilterWhileRunning)) 0 =
     Some 3"
proof -
  have first: "filteredEarthquakes
      (run sampleParse (stoppedView threeQuakes [] initialFilters) [SetFilters initialFilters]) =
      threeQuakes"
    by (simp add: run_def stoppedView_def setFilters_def applyFilters_def
        initial_filters_keep_threeQuakes threeQuakes_not_empty Let_def)
  show ?thesis
    unfolding refilter_run using first by (simp add: displayEarthquakes_def)
qed

section \<open>The proxy\<close>

text \<open>
  Claim C2. For every feature collection whose times are time values, the proxy emits one
  event per feature, in the order of the features, each with latitude, longitude and depth
  the second, first and third coordinate, the other fields taken from the properties and
  \<open>timeString\<close> the ISO-8601 rendering of the time; the response carries these events
  and their number. When the feature list is absent the result is the empty list, in a
  success response.
\<close>

theorem proxy_maps_features:
  assumes "\<forall>f\<in>set fs. newDate (props_time (properties f)) \<noteq> None"
    and "buildParams host q = Inr ps"
    and "ok st"
  shows "processedData \<lparr>features = Some fs, metadata = md\<rparr> = Inr (map eventOfFeature fs) \<and>
         processedData \<lparr>features = None, metadata = md\<rparr> = Inr [] \<and>
         (upstream (upstreamRequest ps) = Response st (Inr \<lparr>features = Some fs, metadata = md\<rparr>) \<longrightarrow>
            fst (handler host upstream q) =
              Json200 \<lparr>count = length fs, earthquakes' = map eventOfFeature fs,
                       metadata' = passMetadata \<lparr>features = Some fs, metadata = md\<rparr>\<rparr>) \<and>
         (upstream (upstreamRequest ps) = Response st (Inr \<lparr>features = None, metadata = md\<rparr>) \<longrightarrow>
            fst (handler host upstream q) =
              Json200 \<lparr>count = 0, earthquakes' = [],
                       metadata' = passMetadata \<lparr>features = None, metadata = md\<rparr>\<rparr>)"
proof -
  have some: "processedData \<lparr>features = Some fs, metadata = md\<rparr> = Inr (map eventOfFeature fs)"
    using assms(1) by (simp add: processedData_def mapProcessed_valid)
  have none: "processedData \<lparr>features = None, metadata = md\<rparr> = Inr []"
    by (simp add: processedData_def)
  show ?thesis
    using some none handler_success[OF assms(2) _ assms(3) some]
      handler_success[OF assms(2) _ assms(3) none]
    by simp
qed

theorem proxy_maps_features_witness:
  "newDate (props_time (properties tokyoFeature)) = Some 1700000000000 \<and>
   buildParams (utcHost 1700000000000) emptyQuery = Inr defaultParams \<and> ok 200 \<and>
   processedData \<lparr>features = Some [tokyoFeature], metadata = None\<rparr> = Inr [tokyo] \<and>
   processedData \<lparr>features = None, metadata = None\<rparr> = Inr []"
proof -
  have t: "newDate (props_time (properties tokyoFeature)) = Some 1700000000000"
    by (simp add: tokyoFeature_def newDate_def maxTimeValue_def)
  then have valid: "\<forall>f\<in>set [tokyoFeature]. newDate (props_time (properties f)) \<noteq> None"
    by simp
  have st: "ok 200" by (simp add: ok_def)
  from proxy_maps_features[OF valid sample_buildParams st, of None]
  have "processedData \<lparr>features = Some [tokyoFeature], metadata = None\<rparr> = Inr [tokyo]"
    and "processedData \<lparr>features = None, metadata = None\<rparr> = Inr []"
    by (simp_all add: eventOfFeature_tokyo)
  with t st sample_buildParams show ?thesis by simp
qed

text \<open>
  Claim C3. When the upstream answers the proxy's request with a status that is not a
  success (outside 200..299, for example 503), the proxy answers 500 with the error
  \<open>Failed to fetch earthquake data\<close> (the kind: the upstream fetch failed) and, as
  details, the message with the status; it has issued that one request and no other, and
  the body is the error body, with no list of earthquakes.
\<close>

theorem upstream_failure_gives_500:
  assumes "buildParams host q = Inr ps"
    and "upstream (upstreamRequest ps) = Response st body"
    and "\<not> ok st"
  shows "handler host upstream q =
     (Json500 \<lparr>error = ''Failed to fetch earthquake data'',
               details = ''USGS API responded with status '' @ decimal st\<rparr>,
      [upstreamRequest ps])"
  using assms by (simp add: handler_def Let_def failed_def)

theorem upstream_failure_gives_500_witness:
  "buildParams (utcHost 1700000000000) emptyQuery = Inr defaultParams \<and>
   unavailable (upstreamRequest defaultParams) = Response 503 (Inl ''Service Unavailable'') \<and>
   \<not> ok 503 \<and>
   handler (utcHost 1700000000000) unavailable emptyQuery =
     (Json500 \<lparr>error = ''Failed to fetch earthquake data'',
               details = ''USGS API responded with status 503''\<rparr>,
      [upstreamRequest defaultParams])"
proof -
  have r: "unavailable (upstreamRequest defaultParams) = Response 503 (Inl ''Service Unavailable'')"
    by (simp add: unavailable_def)
  have st: "\<not> ok 503" by (simp add: ok_def)
  from upstream_failure_gives_500[of "utcHost 1700000000000" emptyQuery defaultParams
      unavailable 503 "Inl ''Service Unavailable''"] sample_buildParams r st
  show ?thesis by (simp add: decimal_503 digit_def)
qed

text \<open>
  Claim C7. For every request the proxy builds a single upstream GET query in which
  \<open>minmagnitude\<close>, \<open>limit\<close> and \<open>format\<close> default to \<open>4.5\<close>, \<open>1000\<close>
  and \<open>geojson\<close>, \<open>starttime\<close> defaults to today minus 30 days written
  \<open>YYYY-MM-DD\<close>, \<open>endtime\<close> is left out when absent, and the query is ordered by
  time ascending. The handler misses two parts of this. It sends \<open>orderby=time\<close>, the
  upstream's order from the newest event to the oldest, and never \<open>time-asc\<close>, while
  the client reveals the events in the order received as a chronological playback. And it
  takes thirty days off with the server's local calendar but prints the date with
  \<open>toISOString\<close>, in UTC: on a server in New York at 19:59:59.999 local time on
  30 March 2024 (2024-03-30T23:59:59.999Z), thirty days back is 29 February in local time
  and in UTC alike, and the request with no parameter carries \<open>starttime=2024-03-01\<close>.
  The other parameters of that request are the stated defaults, in one GET.
\<close>

theorem upstream_query_diverges:
  "map_of (params (hd (snd (handler newYorkEvening unavailable emptyQuery)))) ''orderby'' =
     Some ''time'' \<and>
   \<not> ascendingByTime (params (hd (snd (handler newYorkEvening unavailable emptyQuery)))) \<and>
   map_of (params (hd (snd (handler newYorkEvening unavailable emptyQuery)))) ''starttime'' =
     Some ''2024-03-01'' \<and>
   isoDate (now newYorkEvening - 30 * 86400000) = ''2024-02-29'' \<and>
   isoDate (now newYorkEvening + newYorkOffset (now newYorkEvening) - 30 * 86400000) =
     ''2024-02-29'' \<and>
   snd (handler newYorkEvening unavailable emptyQuery) =
     [\<lparr>httpMethod = ''GET'', baseUrl = USGS_BASE_URL,
       params = [(''format'', ''geojson''), (''minmagnitude'', ''4.5''), (''limit'', ''1000''),
                 (''orderby'', ''time''), (''starttime'', ''2024-03-01'')],
       headers = [(''Accept'', ''application/json''), (''User-Agent'', ''Visual-Globe-App/1.0'')]\<rparr>]"
proof -
  have ps: "buildParams newYorkEvening emptyQuery =
      Inr [(''format'', ''geojson''), (''minmagnitude'', ''4.5''), (''limit'', ''1000''),
           (''orderby'', ''time''), (''starttime'', ''2024-03-01'')]"
    by (simp add: buildParams_eq[OF newYork_thirtyDaysAgo] emptyQuery_def orDefault_def
        truthy_def isoDate_newYork)
  have utc: "isoDate (now newYorkEvening - 30 * 86400000) = ''2024-02-29''"
    by (simp add: newYorkEvening_def isoDate_def civil_19782 yearString_def pad_numeral digit_def)
  have local: "isoDate (now newYorkEvening + newYorkOffset (now newYorkEvening) - 30 * 86400000) =
      ''2024-02-29''"
    by (simp add: newYorkEvening_def newYorkOffset_def isoDate_def civil_19782 yearString_def
        pad_numeral digit_def)
  show ?thesis
    using utc local
    by (simp add: handler_requests[OF ps] upstreamRequest_def ascendingByTime_def)
qed

end
